theory Spec2Isabelle
  imports Main
begin

section \<open>Handshake resolver module: data model\<close>

text \<open>
  The module under verification is the class \<open>Handshake\<close> of \<open>src/index.ts\<close> (the iteration
  that passes the full chain record set to \<open>processNs\<close> and deduplicates the accumulator) and
  its later rewrite in \<open>src/resolver.ts\<close>.

  \<open>DNS_RECORD_TYPE\<close> is the enum of the resolver library; the module names the members
  \<open>A\<close>, \<open>CNAME\<close>, \<open>NS\<close>, \<open>TEXT\<close> and \<open>CONTENT\<close>. Every other member is \<open>OTHER\<close>.
\<close>

datatype DNS_RECORD_TYPE = A | CNAME | NS | CONTENT | TEXT | OTHER string

text \<open>
  \<open>interface HnsRecord { type: string; address: string; txt: string[]; ns: string }\<close>.
  The fields carry the prefix \<open>hns_\<close>.
\<close>

record HnsRecord =
  hns_type :: string
  hns_address :: string
  hns_txt :: "string list"
  hns_ns :: string

text \<open>
  \<open>DNSRecord\<close>, the result record \<open>{type, value}\<close>. The value is a JavaScript string or
  \<open>undefined\<close> (\<open>None\<close>): \<open>processTxt\<close> stores the result of \<open>pop()\<close>, which is
  \<open>undefined\<close> on an empty array.
\<close>

record DNSRecord =
  rec_type :: DNS_RECORD_TYPE
  rec_value :: "string option"

text \<open>
  Modelled from the spec: the declaration of \<open>ResolverOptions\<close> is in the resolver library,
  not in this repository. Section 3 of the specification gives the request an output type and
  a free-form map \<open>options\<close> with the optional keys \<open>ipv6: bool\<close>,
  \<open>hip5: sequence<string>\<close>, \<open>subquery: bool\<close> and \<open>nameserver: string\<close>;
  \<open>resolver.ts\<close> also writes the key \<open>domain\<close>. A key that is absent is \<open>None\<close>, so
  \<open>"k" in options.options\<close> is \<open>opt_k \<noteq> None\<close>. Both \<open>resolve\<close> methods start with
  \<open>options.options = options.options || {}\<close>; the model therefore identifies an absent
  inner map with the empty one, \<open>no_options\<close>.
\<close>

record InnerOptions =
  opt_subquery :: "bool option"
  opt_nameserver :: "string option"
  opt_ipv6 :: "bool option"
  opt_hip5 :: "string list option"
  opt_domain :: "string option"

record ResolverOptions =
  req_type :: DNS_RECORD_TYPE
  req_options :: InnerOptions

definition no_options :: InnerOptions where
  "no_options = \<lparr>opt_subquery = None, opt_nameserver = None, opt_ipv6 = None,
                  opt_hip5 = None, opt_domain = None\<rparr>"

text \<open>The object literal \<open>{ subquery: true, nameserver: n }\<close>.\<close>

definition subquery_options :: "string option \<Rightarrow> InnerOptions" where
  "subquery_options n = no_options\<lparr>opt_subquery := Some True, opt_nameserver := n\<rparr>"

text \<open>The object literal \<open>{ domain }\<close> of \<open>resolver.ts\<close>.\<close>

definition domain_options :: "string \<Rightarrow> InnerOptions" where
  "domain_options d = no_options\<lparr>opt_domain := Some d\<rparr>"

text \<open>
  What the host's generic \<open>resolve\<close> answers: \<open>{records, error?}\<close> (specification,
  section 6).
\<close>

record DNSResult =
  res_records :: "DNSRecord list"
  res_error :: "string option"

text \<open>
  Modelled from the spec: \<open>resolveSuccess\<close>, \<open>resolverEmptyResponse\<close> and
  \<open>resolverError\<close> are functions of the resolver library. Section 3 of the specification
  gives the outcome of the module's \<open>resolve\<close> as one of Success(records), Empty and
  Error(cause).
\<close>

datatype Outcome = Success "DNSRecord list" | Empty | Error string

definition resolveSuccess :: "DNSRecord list \<Rightarrow> Outcome" where
  "resolveSuccess rs = Success rs"

definition resolverEmptyResponse :: Outcome where
  "resolverEmptyResponse = Empty"

definition resolverError :: "string \<Rightarrow> Outcome" where
  "resolverError e = Error e"

text \<open>
  Modelled from the spec: \<open>ensureUniqueRecords\<close> is a function of the resolver library.
  Step 7 of section 4.2: deduplicate the accumulator by (type, value), preserving first-seen
  order. \<open>uniq seen\<close> walks the list and keeps a record unless an equal one was seen.
\<close>

fun uniq :: "DNSRecord list \<Rightarrow> DNSRecord list \<Rightarrow> DNSRecord list" where
  "uniq seen [] = []"
| "uniq seen (r # rs) = (if r \<in> set seen then uniq seen rs else r # uniq (r # seen) rs)"

definition ensureUniqueRecords :: "DNSRecord list \<Rightarrow> DNSRecord list" where
  "ensureUniqueRecords rs = uniq [] rs"

subsection \<open>The collaborators\<close>

text \<open>
  Every call that leaves the module is written to a log. A collaborator that answers
  asynchronously (the sibling resolvers, the RPC network, the host's \<open>resolve\<close>, the
  kernel client) reads the log of the calls made so far, so its answer may change from one
  call to the next.
\<close>

datatype event =
    EvGetSupportedTlds
  | EvWisdomQuery string bool
  | EvResolve string ResolverOptions "bool option"
  | EvClientQuery string
  | EvDnsQuery string DNS_RECORD_TYPE

text \<open>
  The answer of \<open>client.query\<close>: \<open>{result?: {records}, error?}\<close>. \<open>resp_records\<close>
  is \<open>chainRecords.result?.records\<close>, \<open>None\<close> when it is \<open>undefined\<close>.
\<close>

record HandshakeResponse =
  resp_records :: "HnsRecord list option"
  resp_error :: "string option"

text \<open>
  The helpers \<open>getTld\<close>, \<open>isIp\<close>, \<open>isDomain\<close>, \<open>normalizeDomain\<close> and the table
  \<open>tldEnum.list\<close> are imported from other packages; they are parameters. \<open>sibling_tlds\<close>
  is what \<open>getSupportedTlds()\<close> returns for each resolver of \<open>this.resolver.resolvers\<close>,
  in order; \<open>wisdomQuery\<close> is \<open>resp?.records\<close> of the RPC answer; \<open>host_resolve\<close> is
  \<open>this.resolver.resolve\<close>; \<open>client_dnsQuery\<close> gives the \<open>data.address\<close> of each
  answer.
\<close>

record host =
  getTld :: "string \<Rightarrow> string"
  isIp :: "string \<Rightarrow> bool"
  isDomain :: "string \<Rightarrow> bool"
  normalizeDomain :: "string \<Rightarrow> string"
  tldEnum_list :: "string list"
  sibling_tlds :: "event list \<Rightarrow> string list list"
  wisdomQuery :: "event list \<Rightarrow> string \<Rightarrow> bool \<Rightarrow> HnsRecord list option"
  host_resolve :: "event list \<Rightarrow> string \<Rightarrow> ResolverOptions \<Rightarrow> bool option \<Rightarrow> DNSResult"
  client_query :: "event list \<Rightarrow> string \<Rightarrow> HandshakeResponse"
  client_dnsQuery :: "event list \<Rightarrow> string \<Rightarrow> DNS_RECORD_TYPE \<Rightarrow> string list"

text \<open>The state of one \<open>resolve\<close> call: the array \<open>records\<close> and the log.\<close>

record state =
  acc :: "DNSRecord list"
  calls :: "event list"

text \<open>\<open>records.push.apply(records, rs)\<close>.\<close>

definition push :: "DNSRecord list \<Rightarrow> state \<Rightarrow> state" where
  "push rs st = st\<lparr>acc := acc st @ rs\<rparr>"

text \<open>\<open>await this.resolver.resolve(d, o, b)\<close>: the answer, and the call logged.\<close>

definition call_resolve ::
  "host \<Rightarrow> string \<Rightarrow> ResolverOptions \<Rightarrow> bool option \<Rightarrow> state \<Rightarrow> DNSResult \<times> state" where
  "call_resolve h d opts b st =
     (host_resolve h (calls st) d opts b, st\<lparr>calls := calls st @ [EvResolve d opts b]\<rparr>)"

subsection \<open>Strings\<close>

text \<open>
  \<open>s.split(c)\<close> for a one-character separator: the empty string gives one empty label.
\<close>

fun js_split :: "char \<Rightarrow> string \<Rightarrow> string list" where
  "js_split c [] = [[]]"
| "js_split c (x # xs) =
     (if x = c then [] # js_split c xs
      else (case js_split c xs of [] \<Rightarrow> [[x]] | p # ps \<Rightarrow> (x # p) # ps))"

text \<open>The character class \<open>[a-zA-Z0-9\-]\<close>.\<close>

definition label_char :: "char \<Rightarrow> bool" where
  "label_char c =
     (let n = (of_char c :: nat)
      in (97 \<le> n \<and> n \<le> 122) \<or> (65 \<le> n \<and> n \<le> 90) \<or> (48 \<le> n \<and> n \<le> 57) \<or> n = 45)"

text \<open>
  \<open>/[a-zA-Z0-9\-]+/.test(s)\<close>: the pattern is not anchored, so it matches as soon as one
  character of \<open>s\<close> is in the class.
\<close>

definition label_pattern_test :: "string \<Rightarrow> bool" where
  "label_pattern_test s = list_ex label_char s"

definition HIP5_EXTENSIONS :: "string list" where
  "HIP5_EXTENSIONS = [''eth'', ''_eth'']"

text \<open>\<open>xs.slice().pop()\<close>: the last element, \<open>undefined\<close> when there is none.\<close>

definition js_pop :: "'a list \<Rightarrow> 'a option" where
  "js_pop xs = (if xs = [] then None else Some (last xs))"

section \<open>The module of \<open>src/index.ts\<close>\<close>

text \<open>
  \<open>buildBlacklist\<close>: every sibling resolver is asked for its top-level names, and each
  name is added to the set.
\<close>

definition buildBlacklist :: "host \<Rightarrow> event list \<Rightarrow> string set \<times> event list" where
  "buildBlacklist h log =
     (fold (\<lambda>tlds blacklist. fold insert tlds blacklist) (sibling_tlds h log) {},
      log @ [EvGetSupportedTlds])"

text \<open>\<open>query\<close>: \<open>resp?.records || []\<close>.\<close>

definition query :: "host \<Rightarrow> string \<Rightarrow> bool \<Rightarrow> event list \<Rightarrow> HnsRecord list \<times> event list" where
  "query h tld bypassCache log =
     ((case wisdomQuery h log tld bypassCache of None \<Rightarrow> [] | Some rs \<Rightarrow> rs),
      log @ [EvWisdomQuery tld bypassCache])"

definition processGlue ::
  "host \<Rightarrow> string \<Rightarrow> HnsRecord \<Rightarrow> ResolverOptions \<Rightarrow> bool \<Rightarrow> state \<Rightarrow> state" where
  "processGlue h domain record options bypassCache st =
     (if req_type options \<notin> set [A, CNAME] then st
      else if isDomain h (hns_ns record) \<and> isIp h (hns_address record) then
        (let (results, st1) =
               call_resolve h domain
                 (options\<lparr>req_options := subquery_options (Some (hns_address record))\<rparr>)
                 (Some bypassCache) st
         in if res_records results \<noteq> [] then push (res_records results) st1 else st1)
      else st)"

definition processTxt :: "HnsRecord \<Rightarrow> ResolverOptions \<Rightarrow> state \<Rightarrow> state" where
  "processTxt record options st =
     (let content = js_pop (hns_txt record)
      in if req_type options \<in> set [TEXT, CONTENT]
         then push [\<lparr>rec_type = TEXT, rec_value = content\<rparr>] st
         else st)"

text \<open>
  \<open>processNs\<close>. Its caller ignores what it returns, so \<open>return resolverEmptyResponse()\<close>
  is a plain return. \<open>glue && options.type !== DNS_RECORD_TYPE.NS\<close> selects the glue
  record found, for a type other than NS.

  In the last branch \<open>result.records.push(...)\<close> changes the array of the host's answer,
  which is \<open>result'\<close> below. The array \<open>records\<close> of the state is created by
  \<open>resolve\<close> and handed to the handlers only, never to the host, so the two arrays are
  different objects. What the host makes of the change shows in its later answers, which
  read the log.
\<close>

definition processNs ::
  "host \<Rightarrow> string \<Rightarrow> HnsRecord \<Rightarrow> HnsRecord list \<Rightarrow> ResolverOptions \<Rightarrow> bool \<Rightarrow> state \<Rightarrow> state" where
  "processNs h domain record hnsRecords options bypassCache st =
     (if req_type options \<notin> set [A, CNAME, NS] then st
      else
        let glue = find (\<lambda>item. hns_type item \<in> set [''GLUE4'', ''GLUE6'']
                                \<and> hns_ns item = hns_ns record) hnsRecords
        in case (if req_type options \<noteq> NS then glue else None) of
             Some g \<Rightarrow> processGlue h domain g options bypassCache st
           | None \<Rightarrow>
        if req_type options = NS
        then push [\<lparr>rec_type = req_type options, rec_value = Some (hns_ns record)\<rparr>] st
        else
          let foundDomain = normalizeDomain h (hns_ns record);
              hip5Parts = js_split CHR ''.'' foundDomain;
              isHip5 = (2 \<le> length hip5Parts
                        \<and> last hip5Parts
                            \<in> set ((case opt_hip5 (req_options options) of
                                      None \<Rightarrow> [] | Some l \<Rightarrow> l) @ HIP5_EXTENSIONS))
          in if (isDomain h foundDomain \<or> label_pattern_test foundDomain) \<and> \<not> isHip5 then
               let isIcann =
                     (if CHR ''.'' \<in> set foundDomain
                      then last (js_split CHR ''.'' foundDomain) \<in> set (tldEnum_list h)
                      else False)
               in if \<not> isIcann then
                    let (hnsNs, st1) = call_resolve h foundDomain options None st
                    in if res_records hnsNs \<noteq> [] then
                         let (icannRecords, st2) =
                               call_resolve h domain
                                 (options\<lparr>req_options :=
                                    subquery_options (rec_value (last (res_records hnsNs)))\<rparr>)
                                 None st1
                         in if res_records icannRecords \<noteq> []
                            then push (res_records icannRecords) st2 else st2
                       else st1
                  else
                    let (icannRecords, st1) =
                          call_resolve h domain
                            (options\<lparr>req_options := subquery_options (Some foundDomain)\<rparr>)
                            None st
                    in if res_records icannRecords \<noteq> []
                       then push (res_records icannRecords) st1 else st1
             else
               let (result, st1) =
                     call_resolve h (hns_ns record) options (Some bypassCache) st
               in if res_records result = [] then
                    let result' = result\<lparr>res_records :=
                          res_records result @ [\<lparr>rec_type = NS, rec_value = Some (hns_ns record)\<rparr>]\<rparr>
                    in st1
                  else push (res_records result) st1)"

text \<open>The body of the loop of \<open>resolve\<close>: the \<open>switch\<close> on \<open>record.type\<close>.\<close>

definition dispatch ::
  "host \<Rightarrow> string \<Rightarrow> HnsRecord list \<Rightarrow> ResolverOptions \<Rightarrow> bool \<Rightarrow> HnsRecord \<Rightarrow> state \<Rightarrow> state" where
  "dispatch h domain chainRecords options bypassCache record st =
     (if hns_type record = ''NS''
        then processNs h domain record chainRecords options bypassCache st
      else if hns_type record = ''GLUE4''
        then processGlue h domain record options bypassCache st
      else if hns_type record = ''TXT''
        then processTxt record options st
      else if hns_type record = ''SYNTH6''
        then (if req_type options = A \<and> opt_ipv6 (req_options options) \<noteq> None
                 \<and> opt_ipv6 (req_options options) = Some True
              then push [\<lparr>rec_type = req_type options,
                           rec_value = Some (hns_address record)\<rparr>] st
              else st)
      else if hns_type record = ''SYNTH4''
        then (if req_type options = A
              then push [\<lparr>rec_type = req_type options,
                           rec_value = Some (hns_address record)\<rparr>] st
              else st)
      else st)"

text \<open>
  \<open>resolve\<close>. \<open>query\<close> always answers an array, and an array is truthy, so
  \<open>if (!chainRecords)\<close> never returns.
\<close>

definition resolve ::
  "host \<Rightarrow> string \<Rightarrow> ResolverOptions \<Rightarrow> bool \<Rightarrow> event list \<Rightarrow> Outcome \<times> event list" where
  "resolve h domain options bypassCache log0 =
     (let tld = getTld h domain;
          (blacklist, log1) = buildBlacklist h log0
      in if tld \<in> blacklist then (resolverEmptyResponse, log1)
         else if isIp h domain then (resolverEmptyResponse, log1)
         else if opt_subquery (req_options options) \<noteq> None then (resolverEmptyResponse, log1)
         else
           let (chainRecords, log2) = query h tld bypassCache log1;
               st = fold (dispatch h domain chainRecords options bypassCache) chainRecords
                      \<lparr>acc = [], calls = log2\<rparr>;
               records = ensureUniqueRecords (acc st)
           in if 0 < length records then (resolveSuccess records, calls st)
              else (resolverEmptyResponse, calls st))"

section \<open>The module of \<open>src/resolver.ts\<close>\<close>

text \<open>
  A method that can throw a \<open>TypeError\<close> returns an option, \<open>None\<close> for the throw.
  The array \<open>records\<close> of a method and the log travel together in a \<open>state\<close>.
\<close>

text \<open>\<open>findRecordsByType\<close>: \<open>false\<close> (\<open>None\<close>) when no record has the type.\<close>

definition findRecordsByType :: "HnsRecord list \<Rightarrow> string \<Rightarrow> HnsRecord list option" where
  "findRecordsByType records t =
     (let ret = filter (\<lambda>item. hns_type item = t) records
      in if ret = [] then None else Some ret)"

definition isNSHip5 :: "host \<Rightarrow> HnsRecord \<Rightarrow> ResolverOptions \<Rightarrow> bool" where
  "isNSHip5 h record options =
     (let foundDomain = normalizeDomain h (hns_ns record);
          hip5Parts = js_split CHR ''.'' foundDomain
      in 2 \<le> length hip5Parts
         \<and> last hip5Parts
             \<in> set ((case opt_hip5 (req_options options) of None \<Rightarrow> [] | Some l \<Rightarrow> l)
                     @ HIP5_EXTENSIONS))"

definition handleContentRecords :: "HnsRecord list \<Rightarrow> ResolverOptions \<Rightarrow> DNSRecord list" where
  "handleContentRecords contentRecords options =
     (if req_type options = CONTENT
      then map (\<lambda>record. \<lparr>rec_type = CONTENT, rec_value = js_pop (hns_txt record)\<rparr>)
             contentRecords
      else [])"

text \<open>\<open>handleDelegatedLookup\<close>: \<open>nsRecords[0].ns\<close> throws on an empty array.\<close>

definition handleDelegatedLookup ::
  "host \<Rightarrow> HnsRecord list \<Rightarrow> ResolverOptions \<Rightarrow> string \<Rightarrow> bool \<Rightarrow> event list \<Rightarrow> state option" where
  "handleDelegatedLookup h nsRecords options domain bypassCache log =
     (case nsRecords of
        [] \<Rightarrow> None
      | ns0 # _ \<Rightarrow>
          let (result, st) =
                call_resolve h (hns_ns ns0) (options\<lparr>req_options := domain_options domain\<rparr>)
                  (Some bypassCache) \<lparr>acc = [], calls = log\<rparr>
          in Some (if res_records result \<noteq> [] then push (res_records result) st else st))"

definition shouldBypassResolution :: "host \<Rightarrow> string \<Rightarrow> event list \<Rightarrow> bool \<times> event list" where
  "shouldBypassResolution h domain log =
     (let tld = getTld h domain;
          (blacklist, log1) = buildBlacklist h log
      in (tld \<in> blacklist \<or> isIp h domain, log1))"

text \<open>
  \<open>handleWithNameserver\<close>: the loop over \<open>[A, CNAME]\<close>; \<open>ret.slice().shift()\<close> is
  the first answer.
\<close>

definition handleWithNameserver :: "host \<Rightarrow> string \<Rightarrow> ResolverOptions \<Rightarrow> event list \<Rightarrow> state" where
  "handleWithNameserver h domain options log =
     fold (\<lambda>type st.
             if type = req_type options then
               (let ret = client_dnsQuery h (calls st) domain type;
                    st1 = st\<lparr>calls := calls st @ [EvDnsQuery domain type]\<rparr>
                in case ret of
                     [] \<Rightarrow> st1
                   | address # _ \<Rightarrow> push [\<lparr>rec_type = type, rec_value = Some address\<rparr>] st1)
             else st)
          [A, CNAME] \<lparr>acc = [], calls = log\<rparr>"

text \<open>
  \<open>processRecords\<close>. \<open>nsRecords[0]\<close> of an empty array is \<open>undefined\<close>, and
  \<open>isNSHip5\<close> throws on it.
\<close>

definition processRecords ::
  "host \<Rightarrow> HnsRecord list \<Rightarrow> ResolverOptions \<Rightarrow> string \<Rightarrow> bool \<Rightarrow> event list \<Rightarrow> state option" where
  "processRecords h hnsRecords options domain bypassCache log =
     (let nsRecords = findRecordsByType hnsRecords ''NS'';
          contentRecords = findRecordsByType hnsRecords ''TXT''
      in case (if nsRecords \<noteq> None \<and> req_type options = CONTENT then contentRecords else None) of
           Some content \<Rightarrow> Some \<lparr>acc = handleContentRecords content options, calls = log\<rparr>
         | None \<Rightarrow>
      (case (case nsRecords of
               None \<Rightarrow> None
             | Some ns \<Rightarrow> find (\<lambda>record. isNSHip5 h record options) ns) of
         Some hip5Record \<Rightarrow>
           (let (result, st) =
                  call_resolve h (hns_ns hip5Record)
                    (options\<lparr>req_options := domain_options domain\<rparr>)
                    (Some bypassCache) \<lparr>acc = [], calls = log\<rparr>
            in Some (if res_records result \<noteq> [] then push (res_records result) st else st))
       | None \<Rightarrow>
      (case nsRecords of
         Some [] \<Rightarrow> None
       | Some (ns0 # rest) \<Rightarrow>
           if isNSHip5 h ns0 options
           then handleDelegatedLookup h (ns0 # rest) options domain bypassCache log
           else (case contentRecords of
                   Some content \<Rightarrow> Some \<lparr>acc = handleContentRecords content options, calls = log\<rparr>
                 | None \<Rightarrow> Some (handleWithNameserver h domain options log))
       | None \<Rightarrow>
           (case contentRecords of
              Some content \<Rightarrow> Some \<lparr>acc = handleContentRecords content options, calls = log\<rparr>
            | None \<Rightarrow> Some (handleWithNameserver h domain options log)))))"

text \<open>\<open>query\<close> of \<open>resolver.ts\<close>: \<open>client.query("getnameresource", [tld, true])\<close>.\<close>

definition resolver_ts_query :: "host \<Rightarrow> string \<Rightarrow> event list \<Rightarrow> HandshakeResponse \<times> event list" where
  "resolver_ts_query h tld log = (client_query h log tld, log @ [EvClientQuery tld])"

text \<open>
  \<open>if (chainRecords.error)\<close>: the error, when the field is truthy. The empty string is
  falsy.
\<close>

definition reported_error :: "HandshakeResponse \<Rightarrow> string option" where
  "reported_error r =
     (case resp_error r of None \<Rightarrow> None | Some e \<Rightarrow> if e = [] then None else Some e)"

text \<open>\<open>resolve\<close> of \<open>resolver.ts\<close>; \<open>None\<close> when the promise is rejected.\<close>

definition resolver_ts_resolve ::
  "host \<Rightarrow> string \<Rightarrow> ResolverOptions \<Rightarrow> bool \<Rightarrow> event list \<Rightarrow> (Outcome \<times> event list) option" where
  "resolver_ts_resolve h domain options bypassCache log0 =
     (let (bypass, log1) = shouldBypassResolution h domain log0
      in if bypass then Some (resolverEmptyResponse, log1)
         else
           let (chainRecords, log2) = resolver_ts_query h (getTld h domain) log1
           in case reported_error chainRecords of
                Some e \<Rightarrow> Some (resolverError e, log2)
              | None \<Rightarrow>
           (case resp_records chainRecords of
              None \<Rightarrow> Some (resolverEmptyResponse, log2)
            | Some hnsRecords \<Rightarrow>
                if hnsRecords = [] then Some (resolverEmptyResponse, log2)
                else
                  (case processRecords h hnsRecords options domain bypassCache log2 of
                     None \<Rightarrow> None
                   | Some st \<Rightarrow>
                       let records = ensureUniqueRecords (acc st)
                       in Some (if 0 < length records then resolveSuccess records
                                else resolverEmptyResponse, calls st))))"

section \<open>A host for the scenarios\<close>

text \<open>
  Concrete collaborators, on which the model runs: the top-level label is the last label,
  an IP is a non-empty string of digits and dots, a domain has a dot and only label
  characters and dots, names are already normal, three ICANN labels are known and one
  sibling resolver claims \<open>eth\<close>. The chain answers \<open>resp\<close> whatever the label; the
  host's \<open>resolve\<close> answers the records \<open>answers d o\<close>.
\<close>

definition stub_isIp :: "string \<Rightarrow> bool" where
  "stub_isIp s = (s \<noteq> [] \<and> list_all (\<lambda>c. c \<in> set ''0123456789.'') s)"

definition stub_isDomain :: "string \<Rightarrow> bool" where
  "stub_isDomain s = (CHR ''.'' \<in> set s \<and> list_all (\<lambda>c. label_char c \<or> c = CHR ''.'') s)"

definition stub_host ::
  "HandshakeResponse \<Rightarrow> (string \<Rightarrow> ResolverOptions \<Rightarrow> DNSRecord list) \<Rightarrow> host" where
  "stub_host resp answers =
     \<lparr>getTld = (\<lambda>d. last (js_split CHR ''.'' d)),
      isIp = stub_isIp,
      isDomain = stub_isDomain,
      normalizeDomain = (\<lambda>d. d),
      tldEnum_list = [''com'', ''net'', ''org''],
      sibling_tlds = (\<lambda>log. [[''eth'']]),
      wisdomQuery = (\<lambda>log tld bypassCache. resp_records resp),
      host_resolve = (\<lambda>log d opts b. \<lparr>res_records = answers d opts, res_error = None\<rparr>),
      client_query = (\<lambda>log tld. resp),
      client_dnsQuery = (\<lambda>log d t. [])\<rparr>"

definition chain :: "HnsRecord list \<Rightarrow> HandshakeResponse" where
  "chain rs = \<lparr>resp_records = Some rs, resp_error = None\<rparr>"

definition request :: "DNS_RECORD_TYPE \<Rightarrow> ResolverOptions" where
  "request t = \<lparr>req_type = t, req_options = no_options\<rparr>"

definition ns_record :: "string \<Rightarrow> HnsRecord" where
  "ns_record n = \<lparr>hns_type = ''NS'', hns_address = [], hns_txt = [], hns_ns = n\<rparr>"

definition glue4_record :: "string \<Rightarrow> string \<Rightarrow> HnsRecord" where
  "glue4_record n a = \<lparr>hns_type = ''GLUE4'', hns_address = a, hns_txt = [], hns_ns = n\<rparr>"

definition txt_record :: "string list \<Rightarrow> HnsRecord" where
  "txt_record t = \<lparr>hns_type = ''TXT'', hns_address = [], hns_txt = t, hns_ns = []\<rparr>"

definition synth_record :: "string \<Rightarrow> string \<Rightarrow> HnsRecord" where
  "synth_record k a = \<lparr>hns_type = k, hns_address = a, hns_txt = [], hns_ns = []\<rparr>"

definition no_answers :: "string \<Rightarrow> ResolverOptions \<Rightarrow> DNSRecord list" where
  "no_answers d opts = []"

definition one_answer :: "string \<Rightarrow> ResolverOptions \<Rightarrow> DNSRecord list" where
  "one_answer d opts = [\<lparr>rec_type = A, rec_value = Some ''5.5.5.5''\<rparr>]"

section \<open>Reference notions\<close>

text \<open>
  The records of a list at the positions of first occurrence: position \<open>i\<close> is kept when no
  earlier position holds an equal record.
\<close>

definition first_occurrences :: "'a list \<Rightarrow> 'a list" where
  "first_occurrences xs =
     map (\<lambda>i. xs ! i) (filter (\<lambda>i. xs ! i \<notin> set (take i xs)) [0..<length xs])"

text \<open>\<open>ps.join(c)\<close>, the inverse of \<open>split\<close>.\<close>

fun js_join :: "char \<Rightarrow> string list \<Rightarrow> string" where
  "js_join c [] = []"
| "js_join c [p] = p"
| "js_join c (p # q # ps) = p @ c # js_join c (q # ps)"

section \<open>Strings: \<open>split\<close> is what JavaScript computes\<close>

lemma js_split_not_Nil: "js_split c s \<noteq> []"
  by (induction s) (auto split: list.splits)

lemma js_split_no_sep: "c \<notin> set s \<Longrightarrow> js_split c s = [s]"
  by (induction s) auto

lemma js_split_length: "2 \<le> length (js_split c s) \<longleftrightarrow> c \<in> set s"
proof (induction s)
  case Nil
  show ?case by simp
next
  case (Cons x xs)
  show ?case
  proof (cases "x = c")
    case True
    then show ?thesis
      using js_split_not_Nil [of c xs] by (cases "js_split c xs") auto
  next
    case False
    then show ?thesis
      using Cons js_split_not_Nil [of c xs] by (cases "js_split c xs") auto
  qed
qed

lemma js_split_last: "c \<notin> set ext \<Longrightarrow> last (js_split c (pre @ c # ext)) = ext"
proof (induction pre)
  case Nil
  then show ?case by (simp add: js_split_no_sep)
next
  case (Cons x pre)
  show ?case
  proof (cases "x = c")
    case True
    then show ?thesis using Cons js_split_not_Nil [of c "pre @ c # ext"] by simp
  next
    case False
    have "2 \<le> length (js_split c (pre @ c # ext))" by (simp add: js_split_length)
    then obtain p q ps where "js_split c (pre @ c # ext) = p # q # ps"
      by (cases "js_split c (pre @ c # ext)"; cases "tl (js_split c (pre @ c # ext))") auto
    then show ?thesis using False Cons by simp
  qed
qed

lemma js_join_split: "js_join c (js_split c s) = s"
proof (induction s)
  case Nil
  show ?case by simp
next
  case (Cons x xs)
  obtain p ps where sp: "js_split c xs = p # ps"
    using js_split_not_Nil [of c xs] by (cases "js_split c xs") auto
  show ?case
  proof (cases "x = c")
    case True
    then show ?thesis using Cons sp by simp
  next
    case False
    then show ?thesis using Cons sp by (cases ps) auto
  qed
qed

lemma js_split_labels: "p \<in> set (js_split c s) \<Longrightarrow> c \<notin> set p"
proof (induction s arbitrary: p)
  case Nil
  then show ?case by simp
next
  case (Cons x xs)
  obtain q qs where sp: "js_split c xs = q # qs"
    using js_split_not_Nil [of c xs] by (cases "js_split c xs") auto
  show ?case
  proof (cases "x = c")
    case True
    then show ?thesis using Cons by auto
  next
    case False
    then have "p = x # q \<or> p \<in> set qs" using Cons.prems sp by simp
    then show ?thesis using False Cons.IH sp by auto
  qed
qed

text \<open>
  At least two labels, the last of them in \<open>E\<close>: the string ends with a separator and a
  member of \<open>E\<close> that has no separator.
\<close>

lemma hip5_form:
  "(2 \<le> length (js_split c s) \<and> last (js_split c s) \<in> E)
     \<longleftrightarrow> (\<exists>pre ext. s = pre @ c # ext \<and> c \<notin> set ext \<and> ext \<in> E)"
proof
  assume l: "2 \<le> length (js_split c s) \<and> last (js_split c s) \<in> E"
  then have "c \<in> set s" by (simp add: js_split_length)
  then have "\<exists>pre ext. s = pre @ c # ext \<and> c \<notin> set ext" by (rule split_list_last)
  then obtain pre ext where s: "s = pre @ c # ext" and n: "c \<notin> set ext" by auto
  have "last (js_split c (pre @ c # ext)) = ext" using n by (rule js_split_last)
  with l s have "ext \<in> E" by simp
  with s n show "\<exists>pre ext. s = pre @ c # ext \<and> c \<notin> set ext \<and> ext \<in> E"
    by (intro exI conjI)
next
  assume "\<exists>pre ext. s = pre @ c # ext \<and> c \<notin> set ext \<and> ext \<in> E"
  then obtain pre ext where s: "s = pre @ c # ext" and n: "c \<notin> set ext" and e: "ext \<in> E"
    by auto
  have "c \<in> set s" using s by simp
  then have 1: "2 \<le> length (js_split c s)" by (simp only: js_split_length)
  have "last (js_split c (pre @ c # ext)) = ext" using n by (rule js_split_last)
  with s e have 2: "last (js_split c s) \<in> E" by simp
  from 1 2 show "2 \<le> length (js_split c s) \<and> last (js_split c s) \<in> E" ..
qed

lemma isNSHip5_unfold:
  "isNSHip5 h record options \<longleftrightarrow>
      2 \<le> length (js_split CHR ''.'' (normalizeDomain h (hns_ns record)))
      \<and> last (js_split CHR ''.'' (normalizeDomain h (hns_ns record)))
           \<in> set (case opt_hip5 (req_options options) of None \<Rightarrow> [] | Some l \<Rightarrow> l)
               \<union> {''eth'', ''_eth''}"
  by (simp add: isNSHip5_def HIP5_EXTENSIONS_def Let_def)

section \<open>Deduplication\<close>

lemma uniq_snoc:
  "uniq seen (xs @ [x]) = uniq seen xs @ (if x \<in> set seen \<union> set xs then [] else [x])"
  by (induction xs arbitrary: seen) auto

lemma first_occurrences_snoc:
  "first_occurrences (xs @ [x]) = first_occurrences xs @ (if x \<in> set xs then [] else [x])"
proof -
  let ?P = "\<lambda>i. (xs @ [x]) ! i \<notin> set (take i (xs @ [x]))"
  have f: "filter ?P [0..<length xs] = filter (\<lambda>i. xs ! i \<notin> set (take i xs)) [0..<length xs]"
    by (rule filter_cong) (auto simp: nth_append)
  have m: "map (\<lambda>i. (xs @ [x]) ! i) (filter (\<lambda>i. xs ! i \<notin> set (take i xs)) [0..<length xs])
         = map (\<lambda>i. xs ! i) (filter (\<lambda>i. xs ! i \<notin> set (take i xs)) [0..<length xs])"
    by (rule map_cong) (auto simp: nth_append)
  have l: "map (\<lambda>i. (xs @ [x]) ! i) (filter ?P [length xs]) = (if x \<in> set xs then [] else [x])"
    by simp
  have "first_occurrences (xs @ [x])
          = map (\<lambda>i. (xs @ [x]) ! i) (filter ?P ([0..<length xs] @ [length xs]))"
    unfolding first_occurrences_def by simp
  also have "\<dots> = map (\<lambda>i. (xs @ [x]) ! i) (filter ?P [0..<length xs])
                  @ map (\<lambda>i. (xs @ [x]) ! i) (filter ?P [length xs])"
    by (simp only: filter_append map_append)
  also have "\<dots> = first_occurrences xs @ (if x \<in> set xs then [] else [x])"
    unfolding f m l first_occurrences_def ..
  finally show ?thesis .
qed

lemma ensureUniqueRecords_first_occurrences:
  "ensureUniqueRecords rs = first_occurrences rs"
proof (induction rs rule: rev_induct)
  case Nil
  show ?case by (simp add: ensureUniqueRecords_def first_occurrences_def)
next
  case (snoc x xs)
  then show ?case
    using uniq_snoc [of "[]" xs x] by (simp add: ensureUniqueRecords_def first_occurrences_snoc)
qed

lemma set_uniq: "set (uniq seen xs) = set xs - set seen"
  by (induction xs arbitrary: seen) auto

lemma count_list_uniq:
  "count_list (uniq seen xs) r = (if r \<in> set xs - set seen then 1 else 0)"
  by (induction xs arbitrary: seen) (auto simp: set_uniq)

lemma count_ensureUniqueRecords:
  "r \<in> set rs \<Longrightarrow> count_list (ensureUniqueRecords rs) r = 1"
  by (simp add: ensureUniqueRecords_def count_list_uniq)

section \<open>The handlers, branch by branch\<close>

lemma processNs_glue:
  assumes "req_type options = A \<or> req_type options = CNAME"
    and "find (\<lambda>item. hns_type item \<in> set [''GLUE4'', ''GLUE6'']
                       \<and> hns_ns item = hns_ns record) hnsRecords = Some g"
  shows "processNs h domain record hnsRecords options bypassCache st
           = processGlue h domain g options bypassCache st"
proof -
  have t: "req_type options \<in> set [A, CNAME, NS]" "req_type options \<noteq> NS"
    using assms(1) by auto
  show ?thesis
    unfolding processNs_def Let_def assms(2) using t
    by (simp only: if_True if_False not_True_eq_False not_False_eq_True option.case)
qed

lemma processGlue_unfold:
  assumes "req_type options = A \<or> req_type options = CNAME"
  shows "processGlue h domain g options bypassCache st
           = (if isDomain h (hns_ns g) \<and> isIp h (hns_address g)
              then \<lparr>acc = acc st @ res_records (host_resolve h (calls st) domain
                             (options\<lparr>req_options := subquery_options (Some (hns_address g))\<rparr>)
                             (Some bypassCache)),
                    calls = calls st @ [EvResolve domain
                             (options\<lparr>req_options := subquery_options (Some (hns_address g))\<rparr>)
                             (Some bypassCache)]\<rparr>
              else st)"
proof -
  have t: "req_type options \<in> set [A, CNAME]" using assms by auto
  show ?thesis
    using t by (simp add: processGlue_def call_resolve_def push_def)
qed

text \<open>
  The last branch of \<open>processNs\<close>: the target is a HIP-5 name, or it is neither a domain
  nor matched by the label pattern.
\<close>

lemma processNs_direct:
  assumes "req_type options = A \<or> req_type options = CNAME"
    and "find (\<lambda>item. hns_type item \<in> set [''GLUE4'', ''GLUE6'']
                       \<and> hns_ns item = hns_ns record) hnsRecords = None"
    and "isNSHip5 h record options
         \<or> \<not> (isDomain h (normalizeDomain h (hns_ns record))
               \<or> label_pattern_test (normalizeDomain h (hns_ns record)))"
  shows "processNs h domain record hnsRecords options bypassCache st
           = (if res_records (host_resolve h (calls st) (hns_ns record) options (Some bypassCache)) = []
              then st\<lparr>calls := calls st @ [EvResolve (hns_ns record) options (Some bypassCache)]\<rparr>
              else \<lparr>acc = acc st @ res_records (host_resolve h (calls st) (hns_ns record) options
                                                (Some bypassCache)),
                    calls = calls st @ [EvResolve (hns_ns record) options (Some bypassCache)]\<rparr>)"
proof -
  have t: "req_type options \<in> set [A, CNAME, NS]" "req_type options \<noteq> NS"
    using assms(1) by auto
  have c: "\<not> ((isDomain h (normalizeDomain h (hns_ns record))
               \<or> label_pattern_test (normalizeDomain h (hns_ns record)))
            \<and> \<not> (2 \<le> length (js_split CHR ''.'' (normalizeDomain h (hns_ns record)))
                 \<and> last (js_split CHR ''.'' (normalizeDomain h (hns_ns record)))
                     \<in> set ((case opt_hip5 (req_options options) of None \<Rightarrow> [] | Some l \<Rightarrow> l)
                             @ HIP5_EXTENSIONS)))"
    using assms(3) unfolding isNSHip5_def Let_def by blast
  have "processNs h domain record hnsRecords options bypassCache st
          = (case call_resolve h (hns_ns record) options (Some bypassCache) st of
               (result, st1) \<Rightarrow> if res_records result = [] then st1
                                else push (res_records result) st1)"
    unfolding processNs_def Let_def assms(2) using t c
    by (simp only: if_True if_False not_True_eq_False not_False_eq_True option.case)
  then show ?thesis
    by (simp add: call_resolve_def push_def)
qed

text \<open>The gates of \<open>resolve\<close> on the host of the scenarios.\<close>

lemma stub_gate:
  "\<not> fst (shouldBypassResolution (stub_host resp answers) ''example.hns'' [])"
  by (simp add: shouldBypassResolution_def buildBlacklist_def stub_host_def stub_isIp_def Let_def)

lemma stub_blacklist:
  "getTld (stub_host resp answers) ''example.hns''
     \<notin> fst (buildBlacklist (stub_host resp answers) [])"
  by (simp add: buildBlacklist_def stub_host_def)

lemma stub_not_ip: "\<not> isIp (stub_host resp answers) ''example.hns''"
  by (simp add: stub_host_def stub_isIp_def)

lemmas stub_defs = stub_host_def chain_def request_def no_options_def ns_record_def
  glue4_record_def txt_record_def synth_record_def no_answers_def one_answer_def
  stub_isIp_def stub_isDomain_def label_char_def label_pattern_test_def

lemmas resolve_defs = resolve_def buildBlacklist_def query_def dispatch_def
  ensureUniqueRecords_def resolveSuccess_def resolverEmptyResponse_def push_def Let_def

section \<open>The claims\<close>

text \<open>
  C1. Whatever the domain, the cache flag and the other option fields, and whatever the
  chain publishes for the top-level label: when the inner options carry \<open>subquery: true\<close>,
  \<open>resolve\<close> of \<open>index.ts\<close> answers Empty.
\<close>

theorem resolve_subquery_true_empty:
  "opt_subquery (req_options options) = Some True \<Longrightarrow>
   fst (resolve h domain options bypassCache log0) = Empty"
  by (simp add: resolve_def resolverEmptyResponse_def Let_def split: prod.splits)

theorem resolve_subquery_true_empty_witness:
  "fst (resolve (stub_host (chain [synth_record ''SYNTH4'' ''1.2.3.4'']) no_answers)
         ''example.hns''
         \<lparr>req_type = A,
            req_options = no_options\<lparr>opt_subquery := Some True, opt_ipv6 := Some True\<rparr>\<rparr>
         True []) = Empty"
  using resolve_subquery_true_empty
    [of "\<lparr>req_type = A,
           req_options = no_options\<lparr>opt_subquery := Some True, opt_ipv6 := Some True\<rparr>\<rparr>"
        "stub_host (chain [synth_record ''SYNTH4'' ''1.2.3.4'']) no_answers" "''example.hns''"
        True "[]"]
  by simp

text \<open>
  C2, as amended. For a requested type A or CNAME and an NS record whose \<open>ns\<close> is the
  \<open>ns\<close> of a GLUE4 or GLUE6 record of the fetched record set, \<open>processNs\<close> does what
  \<open>processGlue\<close> does on the first such glue record, and nothing else. \<open>processGlue\<close>
  issues the subquery on the original domain, with the glue address as nameserver, and
  appends the records it returns, when the glue record's \<open>ns\<close> is a valid domain and its
  address a valid IP; otherwise it leaves the state as it is.
\<close>

theorem processNs_glue_delegation:
  assumes "req_type options = A \<or> req_type options = CNAME"
    and "find (\<lambda>item. hns_type item \<in> set [''GLUE4'', ''GLUE6'']
                       \<and> hns_ns item = hns_ns record) hnsRecords = Some g"
    and "sub = options\<lparr>req_options :=
                 \<lparr>opt_subquery = Some True, opt_nameserver = Some (hns_address g),
                  opt_ipv6 = None, opt_hip5 = None, opt_domain = None\<rparr>\<rparr>"
  shows "processNs h domain record hnsRecords options bypassCache st
           = processGlue h domain g options bypassCache st
       \<and> processGlue h domain g options bypassCache st
           = (if isDomain h (hns_ns g) \<and> isIp h (hns_address g)
              then \<lparr>acc = acc st
                            @ res_records (host_resolve h (calls st) domain sub (Some bypassCache)),
                    calls = calls st @ [EvResolve domain sub (Some bypassCache)]\<rparr>
              else st)"
proof
  show "processNs h domain record hnsRecords options bypassCache st
           = processGlue h domain g options bypassCache st"
    using assms(1,2) by (rule processNs_glue)
  have "sub = options\<lparr>req_options := subquery_options (Some (hns_address g))\<rparr>"
    using assms(3) by (simp add: subquery_options_def no_options_def)
  then show "processGlue h domain g options bypassCache st
           = (if isDomain h (hns_ns g) \<and> isIp h (hns_address g)
              then \<lparr>acc = acc st
                            @ res_records (host_resolve h (calls st) domain sub (Some bypassCache)),
                    calls = calls st @ [EvResolve domain sub (Some bypassCache)]\<rparr>
              else st)"
    using processGlue_unfold [OF assms(1), of h domain g bypassCache st] by simp
qed

text \<open>
  Scenario D: the record set \<open>[{NS, ns1.com}, {GLUE4, ns1.com, 9.9.9.9}]\<close> and the type A.
  The subquery goes to the nameserver \<open>9.9.9.9\<close>, and its record is appended.
\<close>

theorem processNs_glue_delegation_witness:
  "processNs (stub_host (chain []) one_answer) ''example.hns'' (ns_record ''ns1.com'')
      [ns_record ''ns1.com'', glue4_record ''ns1.com'' ''9.9.9.9''] (request A) False
      \<lparr>acc = [], calls = []\<rparr>
   = \<lparr>acc = [\<lparr>rec_type = A, rec_value = Some ''5.5.5.5''\<rparr>],
      calls = [EvResolve ''example.hns''
                 \<lparr>req_type = A,
                    req_options = \<lparr>opt_subquery = Some True, opt_nameserver = Some ''9.9.9.9'',
                                   opt_ipv6 = None, opt_hip5 = None, opt_domain = None\<rparr>\<rparr>
                 (Some False)]\<rparr>"
proof -
  have t: "req_type (request A) = A \<or> req_type (request A) = CNAME"
    by (simp add: request_def)
  have f: "find (\<lambda>item. hns_type item \<in> set [''GLUE4'', ''GLUE6'']
                         \<and> hns_ns item = hns_ns (ns_record ''ns1.com''))
             [ns_record ''ns1.com'', glue4_record ''ns1.com'' ''9.9.9.9'']
           = Some (glue4_record ''ns1.com'' ''9.9.9.9'')"
    by (simp add: ns_record_def glue4_record_def)
  note w = processNs_glue_delegation
             [OF t f refl, of "stub_host (chain []) one_answer" "''example.hns''" False
                "\<lparr>acc = [], calls = []\<rparr>"]
  show ?thesis
    unfolding conjunct1 [OF w] conjunct2 [OF w] by (simp add: stub_defs)
qed

text \<open>
  C2 as stated fails: with the glue address \<open>not-an-ip\<close> the glue record is found, and no
  subquery is issued, although the host would answer it.
\<close>

theorem processNs_glue_counterexample:
  "processNs (stub_host (chain []) one_answer) ''example.hns'' (ns_record ''ns1.com'')
      [ns_record ''ns1.com'', glue4_record ''ns1.com'' ''not-an-ip''] (request A) False
      \<lparr>acc = [], calls = []\<rparr>
   = \<lparr>acc = [], calls = []\<rparr>
   \<and> resolve (stub_host (chain [ns_record ''ns1.com'', glue4_record ''ns1.com'' ''not-an-ip''])
               one_answer) ''example.hns'' (request A) False []
     = (Empty, [EvGetSupportedTlds, EvWisdomQuery ''hns'' False])"
  by (simp add: processNs_def processGlue_def resolve_defs stub_defs)

text \<open>
  C3. The code at the input of the claim: an NS record whose target reaches the last branch
  of \<open>processNs\<close>, and a direct resolve of \<open>record.ns\<close> that yields no records. The
  record \<open>{NS, record.ns}\<close> goes to the array of the host's answer; the accumulator keeps
  its records, and only the call is logged.
\<close>

theorem processNs_fallback_not_appended:
  assumes "req_type options = A \<or> req_type options = CNAME"
    and "find (\<lambda>item. hns_type item \<in> set [''GLUE4'', ''GLUE6'']
                       \<and> hns_ns item = hns_ns record) hnsRecords = None"
    and "isNSHip5 h record options
         \<or> \<not> (isDomain h (normalizeDomain h (hns_ns record))
               \<or> label_pattern_test (normalizeDomain h (hns_ns record)))"
    and "res_records (host_resolve h (calls st) (hns_ns record) options (Some bypassCache)) = []"
  shows "processNs h domain record hnsRecords options bypassCache st
           = st\<lparr>calls := calls st @ [EvResolve (hns_ns record) options (Some bypassCache)]\<rparr>"
  using processNs_direct [OF assms(1,2,3), of domain bypassCache st] assms(4) by simp

text \<open>
  The record set \<open>[{NS, ns: "_"}]\<close> and the type A: \<open>_\<close> is no domain, has no label
  character and is no HIP-5 name, and the host finds nothing for it. \<open>resolve\<close> answers
  Empty.
\<close>

theorem processNs_fallback_not_appended_witness:
  "\<not> isNSHip5 (stub_host (chain []) no_answers) (ns_record ''_'') (request A)
   \<and> processNs (stub_host (chain []) no_answers) ''example.hns'' (ns_record ''_'')
        [ns_record ''_''] (request A) False \<lparr>acc = [], calls = []\<rparr>
      = \<lparr>acc = [], calls = [EvResolve ''_'' (request A) (Some False)]\<rparr>
   \<and> resolve (stub_host (chain [ns_record ''_'']) no_answers) ''example.hns'' (request A)
        False []
      = (Empty, [EvGetSupportedTlds, EvWisdomQuery ''hns'' False,
                 EvResolve ''_'' (request A) (Some False)])"
proof -
  let ?h = "stub_host (chain []) no_answers"
  have t: "req_type (request A) = A \<or> req_type (request A) = CNAME"
    by (simp add: request_def)
  have f: "find (\<lambda>item. hns_type item \<in> set [''GLUE4'', ''GLUE6'']
                         \<and> hns_ns item = hns_ns (ns_record ''_'')) [ns_record ''_''] = None"
    by (simp add: ns_record_def)
  have n: "\<not> isNSHip5 ?h (ns_record ''_'') (request A)"
    by (simp add: isNSHip5_unfold stub_defs)
  have c: "isNSHip5 ?h (ns_record ''_'') (request A)
         \<or> \<not> (isDomain ?h (normalizeDomain ?h (hns_ns (ns_record ''_'')))
               \<or> label_pattern_test (normalizeDomain ?h (hns_ns (ns_record ''_''))))"
    by (simp add: stub_defs Let_def)
  have e: "res_records (host_resolve ?h (calls \<lparr>acc = [], calls = []\<rparr>)
             (hns_ns (ns_record ''_'')) (request A) (Some False)) = []"
    by (simp add: stub_defs)
  have p: "processNs ?h ''example.hns'' (ns_record ''_'') [ns_record ''_''] (request A) False
             \<lparr>acc = [], calls = []\<rparr>
           = \<lparr>acc = [], calls = [EvResolve ''_'' (request A) (Some False)]\<rparr>"
    using processNs_fallback_not_appended [OF t f c e, of "''example.hns''"]
    by (simp add: ns_record_def)
  have r: "resolve (stub_host (chain [ns_record ''_'']) no_answers) ''example.hns'' (request A)
             False []
           = (Empty, [EvGetSupportedTlds, EvWisdomQuery ''hns'' False,
                      EvResolve ''_'' (request A) (Some False)])"
    by (simp add: processNs_def call_resolve_def HIP5_EXTENSIONS_def resolve_defs stub_defs)
  from n p r show ?thesis by (intro conjI)
qed

text \<open>
  C4. Past the gates, \<open>resolve\<close> answers Success with the deduplicated accumulator when
  that is not empty, and Empty when it is. The deduplicated accumulator holds the records of
  the accumulator at their positions of first occurrence, in that order: the same records,
  each once.
\<close>

theorem resolve_dedup:
  assumes "getTld h domain \<notin> fst (buildBlacklist h log0)" and "\<not> isIp h domain"
    and "opt_subquery (req_options options) = None"
    and "chainRecords = fst (query h (getTld h domain) bypassCache (log0 @ [EvGetSupportedTlds]))"
    and "a = acc (fold (dispatch h domain chainRecords options bypassCache) chainRecords
                 \<lparr>acc = [],
                  calls = log0 @ [EvGetSupportedTlds, EvWisdomQuery (getTld h domain) bypassCache]\<rparr>)"
  shows "fst (resolve h domain options bypassCache log0)
           = (if ensureUniqueRecords a = [] then Empty else Success (ensureUniqueRecords a))
       \<and> ensureUniqueRecords a = first_occurrences a
       \<and> set (ensureUniqueRecords a) = set a
       \<and> (\<forall>r \<in> set a. count_list (ensureUniqueRecords a) r = 1)"
proof (intro conjI)
  show "fst (resolve h domain options bypassCache log0)
           = (if ensureUniqueRecords a = [] then Empty else Success (ensureUniqueRecords a))"
    using assms
    by (simp add: resolve_def buildBlacklist_def query_def resolveSuccess_def
        resolverEmptyResponse_def Let_def split: prod.splits)
  show "ensureUniqueRecords a = first_occurrences a"
    by (rule ensureUniqueRecords_first_occurrences)
  show "set (ensureUniqueRecords a) = set a"
    by (simp add: ensureUniqueRecords_def set_uniq)
  show "\<forall>r \<in> set a. count_list (ensureUniqueRecords a) r = 1"
    by (simp add: count_ensureUniqueRecords)
qed

text \<open>
  Three SYNTH4 records, the first address twice: the accumulator has three records, the
  payload the two different ones, the repeated one at its first position.
\<close>

theorem resolve_dedup_witness:
  "fst (resolve (stub_host (chain [synth_record ''SYNTH4'' ''1.2.3.4'',
                                   synth_record ''SYNTH4'' ''5.6.7.8'',
                                   synth_record ''SYNTH4'' ''1.2.3.4'']) no_answers)
          ''example.hns'' (request A) False [])
     = Success [\<lparr>rec_type = A, rec_value = Some ''1.2.3.4''\<rparr>,
                \<lparr>rec_type = A, rec_value = Some ''5.6.7.8''\<rparr>]"
proof -
  let ?cr = "[synth_record ''SYNTH4'' ''1.2.3.4'', synth_record ''SYNTH4'' ''5.6.7.8'',
              synth_record ''SYNTH4'' ''1.2.3.4'']"
  let ?h = "stub_host (chain ?cr) no_answers"
  have s: "opt_subquery (req_options (request A)) = None"
    by (simp add: request_def no_options_def)
  note w = resolve_dedup [OF stub_blacklist stub_not_ip s refl refl,
                          of "chain ?cr" no_answers False]
  have a: "acc (fold (dispatch ?h ''example.hns''
                        (fst (query ?h (getTld ?h ''example.hns'') False ([] @ [EvGetSupportedTlds])))
                        (request A) False)
                  (fst (query ?h (getTld ?h ''example.hns'') False ([] @ [EvGetSupportedTlds])))
                  \<lparr>acc = [],
                     calls = [] @ [EvGetSupportedTlds,
                                   EvWisdomQuery (getTld ?h ''example.hns'') False]\<rparr>)
           = [\<lparr>rec_type = A, rec_value = Some ''1.2.3.4''\<rparr>,
              \<lparr>rec_type = A, rec_value = Some ''5.6.7.8''\<rparr>,
              \<lparr>rec_type = A, rec_value = Some ''1.2.3.4''\<rparr>]"
    by (simp add: query_def dispatch_def push_def stub_defs)
  show ?thesis
    unfolding conjunct1 [OF w] a by (simp add: ensureUniqueRecords_def)
qed

text \<open>
  C5. For the requested type NS, \<open>processNs\<close> appends exactly \<open>{NS, record.ns}\<close> and
  calls nobody. With the record set \<open>[{NS, ns: "ns1.com"}]\<close> and a request that passes
  the gates, \<open>resolve\<close> answers Success with that one record, after the one fetch.
\<close>

theorem processNs_type_NS:
  "(req_type options = NS \<longrightarrow>
      processNs h domain record hnsRecords options bypassCache st
        = st\<lparr>acc := acc st @ [\<lparr>rec_type = NS, rec_value = Some (hns_ns record)\<rparr>]\<rparr>)
   \<and> (req_type options = NS \<and> getTld h domain \<notin> fst (buildBlacklist h log0)
        \<and> \<not> isIp h domain \<and> opt_subquery (req_options options) = None
        \<and> wisdomQuery h (log0 @ [EvGetSupportedTlds]) (getTld h domain) bypassCache = Some [rcd]
        \<and> hns_type rcd = ''NS'' \<and> hns_ns rcd = ''ns1.com'' \<longrightarrow>
      resolve h domain options bypassCache log0
        = (Success [\<lparr>rec_type = NS, rec_value = Some ''ns1.com''\<rparr>],
           log0 @ [EvGetSupportedTlds, EvWisdomQuery (getTld h domain) bypassCache]))"
proof (intro conjI impI)
  assume "req_type options = NS"
  then show "processNs h domain record hnsRecords options bypassCache st
        = st\<lparr>acc := acc st @ [\<lparr>rec_type = NS, rec_value = Some (hns_ns record)\<rparr>]\<rparr>"
    by (simp add: processNs_def push_def)
next
  assume "req_type options = NS \<and> getTld h domain \<notin> fst (buildBlacklist h log0)
        \<and> \<not> isIp h domain \<and> opt_subquery (req_options options) = None
        \<and> wisdomQuery h (log0 @ [EvGetSupportedTlds]) (getTld h domain) bypassCache = Some [rcd]
        \<and> hns_type rcd = ''NS'' \<and> hns_ns rcd = ''ns1.com''"
  then show "resolve h domain options bypassCache log0
        = (Success [\<lparr>rec_type = NS, rec_value = Some ''ns1.com''\<rparr>],
           log0 @ [EvGetSupportedTlds, EvWisdomQuery (getTld h domain) bypassCache])"
    by (simp add: processNs_def resolve_defs)
qed

text \<open>Scenario A on the host of the scenarios.\<close>

theorem processNs_type_NS_witness:
  "processNs (stub_host (chain []) one_answer) ''example.hns'' (ns_record ''ns1.com'')
      [ns_record ''ns1.com'', glue4_record ''ns1.com'' ''9.9.9.9''] (request NS) False
      \<lparr>acc = [], calls = []\<rparr>
     = \<lparr>acc = [\<lparr>rec_type = NS, rec_value = Some ''ns1.com''\<rparr>], calls = []\<rparr>
   \<and> resolve (stub_host (chain [ns_record ''ns1.com'']) no_answers) ''example.hns''
        (request NS) False []
     = (Success [\<lparr>rec_type = NS, rec_value = Some ''ns1.com''\<rparr>],
        [EvGetSupportedTlds, EvWisdomQuery ''hns'' False])"
proof
  show "processNs (stub_host (chain []) one_answer) ''example.hns'' (ns_record ''ns1.com'')
      [ns_record ''ns1.com'', glue4_record ''ns1.com'' ''9.9.9.9''] (request NS) False
      \<lparr>acc = [], calls = []\<rparr>
     = \<lparr>acc = [\<lparr>rec_type = NS, rec_value = Some ''ns1.com''\<rparr>], calls = []\<rparr>"
    using conjunct1 [OF processNs_type_NS
          [of "request NS" "stub_host (chain []) one_answer" "''example.hns''"
              "ns_record ''ns1.com''"
              "[ns_record ''ns1.com'', glue4_record ''ns1.com'' ''9.9.9.9'']"
              False "\<lparr>acc = [], calls = []\<rparr>"]]
    by (simp add: request_def ns_record_def)
  show "resolve (stub_host (chain [ns_record ''ns1.com'']) no_answers) ''example.hns''
        (request NS) False []
     = (Success [\<lparr>rec_type = NS, rec_value = Some ''ns1.com''\<rparr>],
        [EvGetSupportedTlds, EvWisdomQuery ''hns'' False])"
    using conjunct2 [OF processNs_type_NS
          [of "request NS" "stub_host (chain [ns_record ''ns1.com'']) no_answers"
              "''example.hns''" _ _ False _ "[]" "ns_record ''ns1.com''"]]
          stub_blacklist [of "chain [ns_record ''ns1.com'']" no_answers]
          stub_not_ip [of "chain [ns_record ''ns1.com'']" no_answers]
    by (simp add: request_def no_options_def ns_record_def chain_def stub_host_def)
qed

text \<open>
  C6. \<open>resolve\<close> of \<open>resolver.ts\<close>, for a domain that passes the bypass gate. When the
  answer of the chain query has a truthy \<open>error\<close>, the outcome is Error with that error;
  when it has none and the record set is missing or empty, the outcome is Empty. In both
  cases the log shows the one query and nothing after it. \<open>resolve\<close> of \<open>index.ts\<close>
  answers Empty on a missing or empty record set as well.
\<close>

theorem resolver_ts_resolve_fetch:
  assumes "resp = client_query h (lg @ [EvGetSupportedTlds]) (getTld h domain)"
    and "log2 = lg @ [EvGetSupportedTlds, EvClientQuery (getTld h domain)]"
  shows "(\<not> fst (shouldBypassResolution h domain lg)
            \<and> resp_error resp = Some e \<and> e \<noteq> [] \<longrightarrow>
            resolver_ts_resolve h domain options bypassCache lg = Some (Error e, log2))
       \<and> (\<not> fst (shouldBypassResolution h domain lg)
            \<and> (resp_error resp = None \<or> resp_error resp = Some [])
            \<and> (resp_records resp = None \<or> resp_records resp = Some []) \<longrightarrow>
            resolver_ts_resolve h domain options bypassCache lg = Some (Empty, log2))
       \<and> (getTld h domain \<notin> fst (buildBlacklist h lg) \<and> \<not> isIp h domain
            \<and> opt_subquery (req_options options) = None
            \<and> (wisdomQuery h (lg @ [EvGetSupportedTlds]) (getTld h domain) bypassCache = None
                \<or> wisdomQuery h (lg @ [EvGetSupportedTlds]) (getTld h domain) bypassCache
                     = Some []) \<longrightarrow>
            resolve h domain options bypassCache lg
              = (Empty, lg @ [EvGetSupportedTlds, EvWisdomQuery (getTld h domain) bypassCache]))"
proof (intro conjI impI)
  assume "\<not> fst (shouldBypassResolution h domain lg) \<and> resp_error resp = Some e \<and> e \<noteq> []"
  then show "resolver_ts_resolve h domain options bypassCache lg = Some (Error e, log2)"
    using assms
    by (simp add: resolver_ts_resolve_def shouldBypassResolution_def buildBlacklist_def
        resolver_ts_query_def reported_error_def resolverError_def Let_def)
next
  assume "\<not> fst (shouldBypassResolution h domain lg)
            \<and> (resp_error resp = None \<or> resp_error resp = Some [])
            \<and> (resp_records resp = None \<or> resp_records resp = Some [])"
  then show "resolver_ts_resolve h domain options bypassCache lg = Some (Empty, log2)"
    using assms
    by (auto simp: resolver_ts_resolve_def shouldBypassResolution_def buildBlacklist_def
        resolver_ts_query_def reported_error_def resolverEmptyResponse_def Let_def)
next
  assume "getTld h domain \<notin> fst (buildBlacklist h lg) \<and> \<not> isIp h domain
            \<and> opt_subquery (req_options options) = None
            \<and> (wisdomQuery h (lg @ [EvGetSupportedTlds]) (getTld h domain) bypassCache = None
                \<or> wisdomQuery h (lg @ [EvGetSupportedTlds]) (getTld h domain) bypassCache
                     = Some [])"
  then show "resolve h domain options bypassCache lg
              = (Empty, lg @ [EvGetSupportedTlds, EvWisdomQuery (getTld h domain) bypassCache])"
    by (auto simp: resolve_defs)
qed

text \<open>A query that fails with \<open>timeout\<close>, an empty record set and a missing one.\<close>

theorem resolver_ts_resolve_fetch_witness:
  "resolver_ts_resolve (stub_host \<lparr>resp_records = None, resp_error = Some ''timeout''\<rparr> no_answers)
      ''example.hns'' (request A) False []
     = Some (Error ''timeout'', [EvGetSupportedTlds, EvClientQuery ''hns''])
   \<and> resolver_ts_resolve (stub_host (chain []) no_answers) ''example.hns'' (request A) False []
     = Some (Empty, [EvGetSupportedTlds, EvClientQuery ''hns''])
   \<and> resolver_ts_resolve (stub_host \<lparr>resp_records = None, resp_error = None\<rparr> no_answers)
      ''example.hns'' (request A) False []
     = Some (Empty, [EvGetSupportedTlds, EvClientQuery ''hns''])
   \<and> resolve (stub_host (chain []) no_answers) ''example.hns'' (request A) False []
     = (Empty, [EvGetSupportedTlds, EvWisdomQuery ''hns'' False])"
proof (intro conjI)
  let ?t = "\<lparr>resp_records = None, resp_error = Some ''timeout''\<rparr>"
  let ?n = "\<lparr>resp_records = None, resp_error = None\<rparr>"
  show "resolver_ts_resolve (stub_host ?t no_answers) ''example.hns'' (request A) False []
     = Some (Error ''timeout'', [EvGetSupportedTlds, EvClientQuery ''hns''])"
    using conjunct1 [OF resolver_ts_resolve_fetch [OF refl refl,
            where h = "stub_host ?t no_answers" and lg = "[]" and domain = "''example.hns''"
              and e = "''timeout''" and options = "request A" and bypassCache = False]]
          stub_gate [of ?t no_answers]
    by (simp add: stub_host_def)
  show "resolver_ts_resolve (stub_host (chain []) no_answers) ''example.hns'' (request A) False []
     = Some (Empty, [EvGetSupportedTlds, EvClientQuery ''hns''])"
    using conjunct1 [OF conjunct2 [OF resolver_ts_resolve_fetch [OF refl refl,
            where h = "stub_host (chain []) no_answers" and lg = "[]"
              and domain = "''example.hns''" and options = "request A" and bypassCache = False]]]
          stub_gate [of "chain []" no_answers]
    by (simp add: stub_host_def chain_def)
  show "resolver_ts_resolve (stub_host ?n no_answers) ''example.hns'' (request A) False []
     = Some (Empty, [EvGetSupportedTlds, EvClientQuery ''hns''])"
    using conjunct1 [OF conjunct2 [OF resolver_ts_resolve_fetch [OF refl refl,
            where h = "stub_host ?n no_answers" and lg = "[]"
              and domain = "''example.hns''" and options = "request A" and bypassCache = False]]]
          stub_gate [of ?n no_answers]
    by (simp add: stub_host_def)
  show "resolve (stub_host (chain []) no_answers) ''example.hns'' (request A) False []
     = (Empty, [EvGetSupportedTlds, EvWisdomQuery ''hns'' False])"
    using conjunct2 [OF conjunct2 [OF resolver_ts_resolve_fetch [OF refl refl,
            where h = "stub_host (chain []) no_answers" and lg = "[]"
              and domain = "''example.hns''" and options = "request A" and bypassCache = False]]]
          stub_blacklist [of "chain []" no_answers] stub_not_ip [of "chain []" no_answers]
    by (simp add: stub_host_def chain_def request_def no_options_def)
qed

text \<open>
  C7. In the loop of \<open>resolve\<close>, a SYNTH4 record appends \<open>{A, record.address}\<close> when
  the requested type is A, and nothing otherwise. A SYNTH6 record appends
  \<open>{A, record.address}\<close> when the requested type is A and \<open>ipv6\<close> is present and true,
  and nothing otherwise. Neither calls a collaborator.
\<close>

theorem synth_records_dispatch:
  "(hns_type record = ''SYNTH4'' \<longrightarrow>
      dispatch h domain chainRecords options bypassCache record st
        = st\<lparr>acc := acc st @ (if req_type options = A
                               then [\<lparr>rec_type = A, rec_value = Some (hns_address record)\<rparr>]
                               else [])\<rparr>)
   \<and> (hns_type record = ''SYNTH6'' \<longrightarrow>
      dispatch h domain chainRecords options bypassCache record st
        = st\<lparr>acc := acc st @ (if req_type options = A
                                  \<and> opt_ipv6 (req_options options) = Some True
                               then [\<lparr>rec_type = A, rec_value = Some (hns_address record)\<rparr>]
                               else [])\<rparr>)"
  by (simp add: dispatch_def push_def)

text \<open>
  A SYNTH4 record under A and under CNAME; a SYNTH6 record under A with \<open>ipv6\<close> true,
  false and unset.
\<close>

theorem synth_records_dispatch_witness:
  "acc (dispatch (stub_host (chain []) no_answers) ''example.hns'' [] (request A) False
          (synth_record ''SYNTH4'' ''1.2.3.4'') \<lparr>acc = [], calls = []\<rparr>)
     = [\<lparr>rec_type = A, rec_value = Some ''1.2.3.4''\<rparr>]
   \<and> acc (dispatch (stub_host (chain []) no_answers) ''example.hns'' [] (request CNAME) False
          (synth_record ''SYNTH4'' ''1.2.3.4'') \<lparr>acc = [], calls = []\<rparr>) = []
   \<and> acc (dispatch (stub_host (chain []) no_answers) ''example.hns'' []
          \<lparr>req_type = A, req_options = no_options\<lparr>opt_ipv6 := Some True\<rparr>\<rparr> False
          (synth_record ''SYNTH6'' ''2001:db8::1'') \<lparr>acc = [], calls = []\<rparr>)
     = [\<lparr>rec_type = A, rec_value = Some ''2001:db8::1''\<rparr>]
   \<and> acc (dispatch (stub_host (chain []) no_answers) ''example.hns'' []
          \<lparr>req_type = A, req_options = no_options\<lparr>opt_ipv6 := Some False\<rparr>\<rparr> False
          (synth_record ''SYNTH6'' ''2001:db8::1'') \<lparr>acc = [], calls = []\<rparr>) = []
   \<and> acc (dispatch (stub_host (chain []) no_answers) ''example.hns'' [] (request A) False
          (synth_record ''SYNTH6'' ''2001:db8::1'') \<lparr>acc = [], calls = []\<rparr>) = []"
proof (intro conjI)
  let ?h = "stub_host (chain []) no_answers"
  let ?st = "\<lparr>acc = [], calls = []\<rparr>"
  show "acc (dispatch ?h ''example.hns'' [] (request A) False
          (synth_record ''SYNTH4'' ''1.2.3.4'') ?st)
     = [\<lparr>rec_type = A, rec_value = Some ''1.2.3.4''\<rparr>]"
    using conjunct1 [OF synth_records_dispatch
      [of "synth_record ''SYNTH4'' ''1.2.3.4''" "?h" "''example.hns''" "[]"
         "request A" False "?st"]]
    by (simp add: synth_record_def request_def)
  show "acc (dispatch ?h ''example.hns'' [] (request CNAME) False
          (synth_record ''SYNTH4'' ''1.2.3.4'') ?st) = []"
    using conjunct1 [OF synth_records_dispatch
      [of "synth_record ''SYNTH4'' ''1.2.3.4''" "?h" "''example.hns''" "[]"
         "request CNAME" False "?st"]]
    by (simp add: synth_record_def request_def)
  show "acc (dispatch ?h ''example.hns'' []
          \<lparr>req_type = A, req_options = no_options\<lparr>opt_ipv6 := Some True\<rparr>\<rparr> False
          (synth_record ''SYNTH6'' ''2001:db8::1'') ?st)
     = [\<lparr>rec_type = A, rec_value = Some ''2001:db8::1''\<rparr>]"
    using conjunct2 [OF synth_records_dispatch
      [of "synth_record ''SYNTH6'' ''2001:db8::1''" "?h" "''example.hns''" "[]"
         "\<lparr>req_type = A, req_options = no_options\<lparr>opt_ipv6 := Some True\<rparr>\<rparr>" False "?st"]]
    by (simp add: synth_record_def)
  show "acc (dispatch ?h ''example.hns'' []
          \<lparr>req_type = A, req_options = no_options\<lparr>opt_ipv6 := Some False\<rparr>\<rparr> False
          (synth_record ''SYNTH6'' ''2001:db8::1'') ?st) = []"
    using conjunct2 [OF synth_records_dispatch
      [of "synth_record ''SYNTH6'' ''2001:db8::1''" "?h" "''example.hns''" "[]"
         "\<lparr>req_type = A, req_options = no_options\<lparr>opt_ipv6 := Some False\<rparr>\<rparr>" False "?st"]]
    by (simp add: synth_record_def)
  show "acc (dispatch ?h ''example.hns'' [] (request A) False
          (synth_record ''SYNTH6'' ''2001:db8::1'') ?st) = []"
    using conjunct2 [OF synth_records_dispatch
      [of "synth_record ''SYNTH6'' ''2001:db8::1''" "?h" "''example.hns''" "[]"
         "request A" False "?st"]]
    by (simp add: synth_record_def request_def no_options_def)
qed

text \<open>
  C8. \<open>isNSHip5\<close> holds exactly when the normalized target, split on the dot, has at
  least two labels and its last label is in the caller's \<open>hip5\<close> list or is \<open>eth\<close> or
  \<open>_eth\<close>; that is, when the normalized target ends with a dot and such a label.
  Where the names are already normal, \<open>foo.eth\<close> is a HIP-5 name, \<open>foo.com\<close> is one
  only when the caller lists \<open>com\<close>, and \<open>eth\<close> is none.
\<close>

theorem isNSHip5_classification:
  "(isNSHip5 h record options \<longleftrightarrow>
      2 \<le> length (js_split CHR ''.'' (normalizeDomain h (hns_ns record)))
      \<and> last (js_split CHR ''.'' (normalizeDomain h (hns_ns record)))
           \<in> set (case opt_hip5 (req_options options) of None \<Rightarrow> [] | Some l \<Rightarrow> l)
               \<union> {''eth'', ''_eth''})
   \<and> (isNSHip5 h record options \<longleftrightarrow>
        (\<exists>pre ext. normalizeDomain h (hns_ns record) = pre @ CHR ''.'' # ext
           \<and> CHR ''.'' \<notin> set ext
           \<and> ext \<in> set (case opt_hip5 (req_options options) of None \<Rightarrow> [] | Some l \<Rightarrow> l)
                    \<union> {''eth'', ''_eth''}))
   \<and> (normalizeDomain h ''foo.eth'' = ''foo.eth'' \<and> hns_ns record = ''foo.eth''
        \<longrightarrow> isNSHip5 h record options)
   \<and> (normalizeDomain h ''foo.com'' = ''foo.com'' \<and> hns_ns record = ''foo.com''
        \<and> ''com'' \<notin> set (case opt_hip5 (req_options options) of None \<Rightarrow> [] | Some l \<Rightarrow> l)
        \<longrightarrow> \<not> isNSHip5 h record options)
   \<and> (normalizeDomain h ''eth'' = ''eth'' \<and> hns_ns record = ''eth''
        \<longrightarrow> \<not> isNSHip5 h record options)"
proof (intro conjI)
  show "isNSHip5 h record options \<longleftrightarrow>
      2 \<le> length (js_split CHR ''.'' (normalizeDomain h (hns_ns record)))
      \<and> last (js_split CHR ''.'' (normalizeDomain h (hns_ns record)))
           \<in> set (case opt_hip5 (req_options options) of None \<Rightarrow> [] | Some l \<Rightarrow> l)
               \<union> {''eth'', ''_eth''}"
    by (rule isNSHip5_unfold)
  show "isNSHip5 h record options \<longleftrightarrow>
        (\<exists>pre ext. normalizeDomain h (hns_ns record) = pre @ CHR ''.'' # ext
           \<and> CHR ''.'' \<notin> set ext
           \<and> ext \<in> set (case opt_hip5 (req_options options) of None \<Rightarrow> [] | Some l \<Rightarrow> l)
                    \<union> {''eth'', ''_eth''})"
    unfolding isNSHip5_unfold by (rule hip5_form)
  show "normalizeDomain h ''foo.eth'' = ''foo.eth'' \<and> hns_ns record = ''foo.eth''
        \<longrightarrow> isNSHip5 h record options"
    by (simp add: isNSHip5_unfold)
  show "normalizeDomain h ''foo.com'' = ''foo.com'' \<and> hns_ns record = ''foo.com''
        \<and> ''com'' \<notin> set (case opt_hip5 (req_options options) of None \<Rightarrow> [] | Some l \<Rightarrow> l)
        \<longrightarrow> \<not> isNSHip5 h record options"
    by (simp add: isNSHip5_unfold)
  show "normalizeDomain h ''eth'' = ''eth'' \<and> hns_ns record = ''eth''
        \<longrightarrow> \<not> isNSHip5 h record options"
    by (simp add: isNSHip5_unfold)
qed

text \<open>The three names of the specification, and \<open>foo.com\<close> for a caller who lists \<open>com\<close>.\<close>

theorem isNSHip5_classification_witness:
  "isNSHip5 (stub_host (chain []) no_answers) (ns_record ''foo.eth'') (request A)
   \<and> \<not> isNSHip5 (stub_host (chain []) no_answers) (ns_record ''foo.com'') (request A)
   \<and> \<not> isNSHip5 (stub_host (chain []) no_answers) (ns_record ''eth'') (request A)
   \<and> isNSHip5 (stub_host (chain []) no_answers) (ns_record ''foo.com'')
        \<lparr>req_type = A, req_options = no_options\<lparr>opt_hip5 := Some [''com'']\<rparr>\<rparr>"
  using isNSHip5_classification
          [of "stub_host (chain []) no_answers" "ns_record ''foo.eth''" "request A"]
        isNSHip5_classification
          [of "stub_host (chain []) no_answers" "ns_record ''foo.com''" "request A"]
        isNSHip5_classification
          [of "stub_host (chain []) no_answers" "ns_record ''eth''" "request A"]
        isNSHip5_classification
          [of "stub_host (chain []) no_answers" "ns_record ''foo.com''"
              "\<lparr>req_type = A, req_options = no_options\<lparr>opt_hip5 := Some [''com'']\<rparr>\<rparr>"]
  by (simp add: stub_host_def ns_record_def request_def no_options_def)

text \<open>
  C9. The guard looks at the key, not at its value: whenever the inner options hold the key
  \<open>subquery\<close>, with \<open>true\<close> or with \<open>false\<close>, \<open>resolve\<close> answers Empty, and the
  log holds the enumeration of the sibling resolvers and no query of the chain.
\<close>

theorem resolve_subquery_key_guard:
  "opt_subquery (req_options options) = Some v \<Longrightarrow>
   resolve h domain options bypassCache lg = (Empty, lg @ [EvGetSupportedTlds])"
  by (simp add: resolve_def buildBlacklist_def resolverEmptyResponse_def Let_def)

theorem resolve_subquery_key_guard_witness:
  "resolve (stub_host (chain [synth_record ''SYNTH4'' ''1.2.3.4'']) no_answers) ''example.hns''
      \<lparr>req_type = A, req_options = no_options\<lparr>opt_subquery := Some False\<rparr>\<rparr> False []
     = (Empty, [EvGetSupportedTlds])"
  using resolve_subquery_key_guard
    [where options = "\<lparr>req_type = A, req_options = no_options\<lparr>opt_subquery := Some False\<rparr>\<rparr>"
       and v = False and h = "stub_host (chain [synth_record ''SYNTH4'' ''1.2.3.4'']) no_answers"
       and domain = "''example.hns''" and bypassCache = False and lg = "[]"]
  by simp

text \<open>
  C10. \<open>processTxt\<close> appends one record when the requested type is TEXT or CONTENT: its
  type is TEXT, its value the last element of \<open>record.txt\<close> (\<open>undefined\<close> when there is
  none). For every other requested type it appends nothing. The loop of \<open>resolve\<close> hands
  each TXT record to \<open>processTxt\<close>.
\<close>

theorem processTxt_emits_TEXT:
  "processTxt record options st
     = st\<lparr>acc := acc st @
          (if req_type options = TEXT \<or> req_type options = CONTENT
           then [\<lparr>rec_type = TEXT,
                  rec_value = (if hns_txt record = [] then None
                               else Some (last (hns_txt record)))\<rparr>]
           else [])\<rparr>
   \<and> (hns_type record = ''TXT'' \<longrightarrow>
        dispatch h domain chainRecords options bypassCache record st
          = processTxt record options st)"
  by (simp add: processTxt_def dispatch_def push_def js_pop_def)

text \<open>Scenario C, under CONTENT, and the same record under A.\<close>

theorem processTxt_emits_TEXT_witness:
  "acc (dispatch (stub_host (chain []) no_answers) ''example.hns'' [] (request CONTENT) False
          (txt_record [''v=1'', ''hello'']) \<lparr>acc = [], calls = []\<rparr>)
     = [\<lparr>rec_type = TEXT, rec_value = Some ''hello''\<rparr>]
   \<and> acc (processTxt (txt_record [''v=1'', ''hello'']) (request A) \<lparr>acc = [], calls = []\<rparr>) = []"
  using processTxt_emits_TEXT
          [of "txt_record [''v=1'', ''hello'']" "request CONTENT"
              "\<lparr>acc = [], calls = []\<rparr>" "stub_host (chain []) no_answers"
              "''example.hns''" "[]" False]
        processTxt_emits_TEXT
          [of "txt_record [''v=1'', ''hello'']" "request A" "\<lparr>acc = [], calls = []\<rparr>"]
  by (simp add: txt_record_def request_def)

end
